theory Spec2Isabelle
  imports Main "HOL-Library.Sublist"
begin

section \<open>The HTTP wake endpoint (scripts/http-wake.py)\<close>

text \<open>
  The script is one request handler class, \<^verbatim>\<open>WakeHandler\<close>, with the two methods
  \<^verbatim>\<open>do_POST\<close> and \<^verbatim>\<open>log_message\<close>, and a main block that binds the server, serves and
  turns two exceptions into exit statuses. Strings and byte strings are both \<open>string\<close>
  (lists of bytes); every text the script writes is ASCII, so \<^verbatim>\<open>encode()\<close> changes nothing.
\<close>

subsection \<open>Exceptions, requests, library calls\<close>

abbreviation nl :: string where
  "nl \<equiv> [CHR 0x0A]"

text \<open>
  The exceptions that reach the script's \<^verbatim>\<open>except\<close> clauses. An exception carries the
  text that \<^verbatim>\<open>str(e)\<close> gives (the script only ever formats it). \<^verbatim>\<open>CalledProcessError\<close>
  is what \<^verbatim>\<open>subprocess.run(..., check=True)\<close> raises on a nonzero exit status;
  \<^verbatim>\<open>OSError\<close> is what it raises when the child cannot be started, and what the server's
  constructor raises when the port cannot be bound. \<^verbatim>\<open>KeyboardInterrupt\<close> is the only one
  that is not a subclass of \<^verbatim>\<open>Exception\<close>.
\<close>

datatype exn = CalledProcessError string | OSError string | KeyboardInterrupt

fun is_Exception :: "exn \<Rightarrow> bool" where
  "is_Exception (CalledProcessError _) = True"
| "is_Exception (OSError _) = True"
| "is_Exception KeyboardInterrupt = False"

text \<open>
  What the handler object holds of a request: the method (\<^verbatim>\<open>self.command\<close>), the raw
  request target (\<^verbatim>\<open>self.path\<close>, query string included), the header lines and the body
  waiting on \<^verbatim>\<open>self.rfile\<close>.
\<close>

record request =
  command :: string
  path :: string
  headers :: "(string \<times> string) list"
  body :: string

text \<open>
  The effects of handling one request, in order: the calls made on the subprocess module
  and on the handler's base class. \<open>Subprocess_run argv check capture_output\<close> is
  \<^verbatim>\<open>subprocess.run(argv, check=..., capture_output=...)\<close>; \<open>Send_error code\<close> is the base
  class's own \<^verbatim>\<open>send_error(code, ...)\<close>, which writes a complete error response.
\<close>

datatype call =
    Subprocess_run "string list" bool bool
  | Send_response nat
  | Send_header string string
  | End_headers
  | Wfile_write string
  | Send_error nat

fun is_run :: "call \<Rightarrow> bool" where
  "is_run (Subprocess_run _ _ _) = True"
| "is_run _ = False"

subsection \<open>WakeHandler\<close>

text \<open>
  \<^verbatim>\<open>do_POST\<close>. The second argument is what \<^verbatim>\<open>subprocess.run\<close> does when it is called:
  \<open>Inr ()\<close> when it returns (with \<^verbatim>\<open>check=True\<close>: the child exited with status 0),
  \<open>Inl e\<close> when it raises \<open>e\<close>. The result is the calls made and the exception that
  leaves the method, if any: only \<^verbatim>\<open>CalledProcessError\<close> is caught. The calls are those made
  over a connection that takes every write; \<open>handle_lost\<close> below is the same request over
  a connection that breaks.
\<close>

definition pkill :: "string list" where
  "pkill = [''pkill'', ''-USR1'', ''touch-timeout'']"

definition do_POST :: "request \<Rightarrow> exn + unit \<Rightarrow> call list \<times> exn option" where
  "do_POST self run =
     (if path self = ''/wake'' then
        (case run of
           Inr _ \<Rightarrow>
             ([Subprocess_run pkill True True,
               Send_response 200,
               Send_header ''Content-Type'' ''text/plain'',
               End_headers,
               Wfile_write (''Display wake signal sent'' @ nl)], None)
         | Inl (CalledProcessError e) \<Rightarrow>
             ([Subprocess_run pkill True True,
               Send_response 500,
               Send_header ''Content-Type'' ''text/plain'',
               End_headers,
               Wfile_write (''Error sending signal: '' @ e @ nl)], None)
         | Inl e \<Rightarrow> ([Subprocess_run pkill True True], Some e))
      else
        ([Send_response 404,
          Send_header ''Content-Type'' ''text/plain'',
          End_headers,
          Wfile_write (''Not found. Use POST /wake'' @ nl)], None))"

text \<open>
  Whatever is written to standard error: a \<^verbatim>\<open>print(..., file=sys.stderr)\<close> of the script
  (the text with its newline), the report of the server's \<^verbatim>\<open>handle_error\<close> for an
  exception that left a handler, or the interpreter's report of an uncaught exception.
\<close>

datatype diag = Print string | Handle_error exn | Uncaught exn

text \<open>\<^verbatim>\<open>log_message\<close>: the override has the body \<^verbatim>\<open>pass\<close>, it writes nothing.\<close>

definition log_message :: "string \<Rightarrow> string list \<Rightarrow> diag list" where
  "log_message format args = []"

subsection \<open>The base class: dispatch, logging, the response a client reads\<close>

text \<open>
  \<^verbatim>\<open>BaseHTTPRequestHandler.handle_one_request\<close> looks the method \<^verbatim>\<open>do_\<close> + command up on
  the handler and answers 501 through \<^verbatim>\<open>send_error\<close> when there is none. \<^verbatim>\<open>WakeHandler\<close>
  defines \<^verbatim>\<open>do_POST\<close> only.
\<close>

definition handle_one_request :: "request \<Rightarrow> exn + unit \<Rightarrow> call list \<times> exn option" where
  "handle_one_request self run =
     (if ''do_'' @ command self = ''do_POST'' then do_POST self run
      else ([Send_error 501], None))"

text \<open>
  The base class logs through \<^verbatim>\<open>self.log_message\<close>: \<^verbatim>\<open>send_response\<close> calls
  \<^verbatim>\<open>log_request\<close>, and \<^verbatim>\<open>send_error\<close> calls \<^verbatim>\<open>log_error\<close> and then \<^verbatim>\<open>send_response\<close>.
  The arguments of the format (request line, code, size, message) are left out: the
  override never looks at them. \<open>logged\<close> is what one call puts on standard error.
\<close>

definition log_request :: "nat \<Rightarrow> diag list" where
  \<open>log_request code = log_message ''"%s" %s %s'' []\<close>

definition log_error :: "nat \<Rightarrow> diag list" where
  "log_error code = log_message ''code %d, message %s'' []"

fun logged :: "call \<Rightarrow> diag list" where
  "logged (Send_response code) = log_request code"
| "logged (Send_error code) = log_error code @ log_request code"
| "logged _ = []"

text \<open>
  What a client reads off the calls: the status of the response, the headers the handler
  adds with \<^verbatim>\<open>send_header\<close>, and the bytes the handler writes to \<^verbatim>\<open>wfile\<close> (the page that
  \<^verbatim>\<open>send_error\<close> writes by itself is not part of \<open>body_of\<close>).
\<close>

fun status_of :: "call list \<Rightarrow> nat option" where
  "status_of [] = None"
| "status_of (Send_response code # cs) = Some code"
| "status_of (Send_error code # cs) = Some code"
| "status_of (_ # cs) = status_of cs"

fun headers_of :: "call list \<Rightarrow> (string \<times> string) list" where
  "headers_of [] = []"
| "headers_of (Send_header k v # cs) = (k, v) # headers_of cs"
| "headers_of (_ # cs) = headers_of cs"

fun body_of :: "call list \<Rightarrow> string" where
  "body_of [] = []"
| "body_of (Wfile_write bs # cs) = bs @ body_of cs"
| "body_of (_ # cs) = body_of cs"

subsection \<open>A client that goes away\<close>

text \<open>
  \<^verbatim>\<open>send_response\<close> and \<^verbatim>\<open>send_header\<close> only fill the header buffer. \<^verbatim>\<open>end_headers\<close> and
  \<^verbatim>\<open>wfile.write\<close> write to the socket, and so does the base class's \<^verbatim>\<open>send_error\<close>
  (taken as one write).
\<close>

fun writes :: "call \<Rightarrow> bool" where
  "writes End_headers = True"
| "writes (Wfile_write _) = True"
| "writes (Send_error _) = True"
| "writes _ = False"

text \<open>
  When the client has gone, a write raises \<^verbatim>\<open>ConnectionResetError\<close> or
  \<^verbatim>\<open>BrokenPipeError\<close>, both \<^verbatim>\<open>OSError\<close>. \<open>cut_at n msg calls\<close> runs the calls over a connection
  that takes \<open>n\<close> writes and raises \<^verbatim>\<open>OSError\<close> with the text \<open>msg\<close> at the next one: the
  calls up to and with the write that raises, and the exception.
\<close>

fun cut_at :: "nat \<Rightarrow> string \<Rightarrow> call list \<Rightarrow> call list \<times> exn option" where
  "cut_at n msg [] = ([], None)"
| "cut_at n msg (c # cs) =
     (if writes c then
        (case n of
           0 \<Rightarrow> ([c], Some (OSError msg))
         | Suc m \<Rightarrow> (case cut_at m msg cs of (cs', x) \<Rightarrow> (c # cs', x)))
      else (case cut_at n msg cs of (cs', x) \<Rightarrow> (c # cs', x)))"

text \<open>
  A request over such a connection. No \<^verbatim>\<open>except\<close> clause of \<^verbatim>\<open>do_POST\<close> names
  \<^verbatim>\<open>OSError\<close>, and the base class's \<^verbatim>\<open>handle_one_request\<close> catches timeouts only, so the
  exception of the write ends the calls and leaves the handler. An exception of
  \<^verbatim>\<open>subprocess.run\<close> that leaves the handler does so before any write.
\<close>

definition handle_lost ::
  "request \<Rightarrow> exn + unit \<Rightarrow> nat \<Rightarrow> string \<Rightarrow> call list \<times> exn option" where
  "handle_lost self run n msg =
     (case handle_one_request self run of
        (calls, Some e) \<Rightarrow> (calls, Some e)
      | (calls, None) \<Rightarrow> cut_at n msg calls)"

subsection \<open>The main block\<close>

text \<open>
  The process: what it has written to standard error, its exit status once it has exited,
  whether the \<^verbatim>\<open>HTTPServer\<close> object exists (the port is bound), and the calls made for each
  request handled so far.
\<close>

record process =
  stderr :: "diag list"
  exit_status :: "int option"
  server :: bool
  exchanges :: "call list list"

definition listener_running :: "process \<Rightarrow> bool" where
  "listener_running p = (server p \<and> exit_status p = None)"

text \<open>
  What arrives while the server serves: a request, with what \<^verbatim>\<open>subprocess.run\<close> does if
  the handler calls it; a request whose client goes away (\<open>Request_lost r run n msg\<close>:
  the connection takes \<open>n\<close> writes, the next one raises \<^verbatim>\<open>OSError\<close> with the text \<open>msg\<close>);
  or the operator's interrupt.
\<close>

datatype event =
    Request request "exn + unit"
  | Request_lost request "exn + unit" nat string
  | Interrupt

text \<open>
  \<^verbatim>\<open>serve_forever\<close> on the events that arrive. Each request gets a handler of its own. The
  server catches an \<^verbatim>\<open>Exception\<close> that leaves the handler, reports it with
  \<^verbatim>\<open>handle_error\<close> and goes on; anything else is raised again. After the last event of
  the list the server is still serving (no exception: \<open>None\<close>).
\<close>

fun serve_forever :: "event list \<Rightarrow> process \<Rightarrow> process \<times> exn option" where
  "serve_forever [] p = (p, None)"
| "serve_forever (Interrupt # evs) p = (p, Some KeyboardInterrupt)"
| "serve_forever (Request r run # evs) p =
     (case handle_one_request r run of
        (calls, raised) \<Rightarrow>
          let p' = p\<lparr>exchanges := exchanges p @ [calls],
                     stderr := stderr p @ concat (map logged calls)\<rparr>
          in (case raised of
                None \<Rightarrow> serve_forever evs p'
              | Some e \<Rightarrow>
                  if is_Exception e
                  then serve_forever evs (p'\<lparr>stderr := stderr p' @ [Handle_error e]\<rparr>)
                  else (p', Some e)))"
| "serve_forever (Request_lost r run n msg # evs) p =
     (case handle_lost r run n msg of
        (calls, raised) \<Rightarrow>
          let p' = p\<lparr>exchanges := exchanges p @ [calls],
                     stderr := stderr p @ concat (map logged calls)\<rparr>
          in (case raised of
                None \<Rightarrow> serve_forever evs p'
              | Some e \<Rightarrow>
                  if is_Exception e
                  then serve_forever evs (p'\<lparr>stderr := stderr p' @ [Handle_error e]\<rparr>)
                  else (p', Some e)))"

definition startup_line :: string where
  "startup_line = ''touch-timeout HTTP wake endpoint listening on 127.0.0.1:8765'' @ nl"

definition hint_line :: string where
  "hint_line = ''Is another instance already running? Check: lsof -i :8765'' @ nl"

definition shutdown_line :: string where
  "shutdown_line = nl @ ''Shutting down...'' @ nl"

text \<open>The \<^verbatim>\<open>except\<close> clauses of the main block; an exception they do not name ends the
  process with the interpreter's report and status 1.\<close>

fun main_except :: "exn \<Rightarrow> process \<Rightarrow> process" where
  "main_except (OSError e) p =
     p\<lparr>stderr := stderr p @ [Print (''Error starting server: '' @ e @ nl), Print hint_line],
       exit_status := Some 1\<rparr>"
| "main_except KeyboardInterrupt p =
     p\<lparr>stderr := stderr p @ [Print shutdown_line], exit_status := Some 0\<rparr>"
| "main_except e p =
     p\<lparr>stderr := stderr p @ [Uncaught e], exit_status := Some 1\<rparr>"

definition not_started :: process where
  "not_started = \<lparr>stderr = [], exit_status = None, server = False, exchanges = []\<rparr>"

text \<open>
  The main block. \<open>bind\<close> is what the constructor \<^verbatim>\<open>HTTPServer(("127.0.0.1", 8765), WakeHandler)\<close>
  does: \<open>None\<close> when the port is bound, \<open>Some e\<close> when it raises \<^verbatim>\<open>OSError\<close> with the
  text \<open>e\<close>.
\<close>

definition main :: "string option \<Rightarrow> event list \<Rightarrow> process" where
  "main bind evs =
     (case bind of
        Some e \<Rightarrow> main_except (OSError e) not_started
      | None \<Rightarrow>
          (case serve_forever evs (not_started\<lparr>server := True, stderr := [Print startup_line]\<rparr>) of
             (p, None) \<Rightarrow> p
           | (p, Some e) \<Rightarrow> main_except e p))"

subsection \<open>Predicates on events and diagnostics\<close>

text \<open>
  An event interrupts the server when it is the operator's interrupt, or a request during
  whose signal delivery the interrupt arrives.
\<close>

fun interrupts :: "event \<Rightarrow> bool" where
  "interrupts Interrupt = True"
| "interrupts (Request r run) = (run = Inl KeyboardInterrupt)"
| "interrupts (Request_lost r run n msg) = (run = Inl KeyboardInterrupt)"

text \<open>What handling an event does: the calls made and the exception that leaves the handler.\<close>

fun handled :: "event \<Rightarrow> call list \<times> exn option" where
  "handled (Request r run) = handle_one_request r run"
| "handled (Request_lost r run n msg) = handle_lost r run n msg"
| "handled Interrupt = ([], None)"

text \<open>The calls that handling an event makes.\<close>

fun calls_for :: "event \<Rightarrow> call list" where
  "calls_for (Request r run) = fst (handle_one_request r run)"
| "calls_for (Request_lost r run n msg) = fst (handle_lost r run n msg)"
| "calls_for Interrupt = []"

text \<open>
  An \<^verbatim>\<open>Exception\<close> leaves the handler of the event: the child process could not be started
  (\<^verbatim>\<open>subprocess.run\<close> raises \<^verbatim>\<open>OSError\<close>), or a write to a client that has gone raises.
\<close>

definition escapes :: "event \<Rightarrow> bool" where
  "escapes ev = (case snd (handled ev) of None \<Rightarrow> False | Some e \<Rightarrow> is_Exception e)"

text \<open>
  The lifecycle diagnostics: the startup line, the shutdown line and the two lines of the
  fatal bind error.
\<close>

fun lifecycle :: "diag \<Rightarrow> bool" where
  "lifecycle (Print s) =
     (s = startup_line \<or> s = shutdown_line \<or> s = hint_line
      \<or> prefix ''Error starting server: '' s)"
| "lifecycle _ = False"

section \<open>One request\<close>

text \<open>
  Claim C1. A POST request whose path is exactly \<^verbatim>\<open>/wake\<close>, when the signal delivery
  succeeds (\<^verbatim>\<open>subprocess.run\<close> returns), is answered with status 200, the header
  \<^verbatim>\<open>Content-Type: text/plain\<close> and the body \<^verbatim>\<open>Display wake signal sent\<close> followed by a
  newline; no exception leaves the handler.
\<close>

theorem wake_success:
  assumes "command r = ''POST''" and "path r = ''/wake''"
  shows "handle_one_request r (Inr ()) =
           ([Subprocess_run pkill True True, Send_response 200,
             Send_header ''Content-Type'' ''text/plain'', End_headers,
             Wfile_write (''Display wake signal sent'' @ nl)], None)
         \<and> status_of (fst (handle_one_request r (Inr ()))) = Some 200
         \<and> headers_of (fst (handle_one_request r (Inr ()))) = [(''Content-Type'', ''text/plain'')]
         \<and> body_of (fst (handle_one_request r (Inr ()))) = ''Display wake signal sent'' @ nl"
  using assms by (simp add: handle_one_request_def do_POST_def)

theorem wake_success_witness:
  "status_of (fst (handle_one_request
      \<lparr>command = ''POST'', path = ''/wake'', headers = [], body = []\<rparr> (Inr ()))) = Some 200
   \<and> body_of (fst (handle_one_request
      \<lparr>command = ''POST'', path = ''/wake'', headers = [], body = []\<rparr> (Inr ())))
      = ''Display wake signal sent'' @ nl"
  using wake_success [of "\<lparr>command = ''POST'', path = ''/wake'', headers = [], body = []\<rparr>"]
  by simp

text \<open>
  Claim C2. A POST request to \<^verbatim>\<open>/wake\<close>, when the signal delivery fails with a nonzero exit
  status (\<^verbatim>\<open>subprocess.run\<close> raises \<^verbatim>\<open>CalledProcessError\<close>), is answered with status 500, the
  header \<^verbatim>\<open>Content-Type: text/plain\<close> and a body that starts with \<^verbatim>\<open>Error sending signal:\<close>
  and ends with a newline: it is that text, a space, the text of the exception and a
  newline.
\<close>

theorem wake_failure:
  assumes "command r = ''POST''" and "path r = ''/wake''"
  shows "status_of (fst (handle_one_request r (Inl (CalledProcessError e)))) = Some 500
         \<and> headers_of (fst (handle_one_request r (Inl (CalledProcessError e))))
             = [(''Content-Type'', ''text/plain'')]
         \<and> body_of (fst (handle_one_request r (Inl (CalledProcessError e))))
             = ''Error sending signal: '' @ e @ nl
         \<and> prefix ''Error sending signal:''
             (body_of (fst (handle_one_request r (Inl (CalledProcessError e)))))
         \<and> suffix nl (body_of (fst (handle_one_request r (Inl (CalledProcessError e)))))
         \<and> snd (handle_one_request r (Inl (CalledProcessError e))) = None"
  using assms by (simp add: handle_one_request_def do_POST_def suffix_def)

theorem wake_failure_witness:
  "status_of (fst (handle_one_request
      \<lparr>command = ''POST'', path = ''/wake'', headers = [], body = []\<rparr>
      (Inl (CalledProcessError ''exit status 1'')))) = Some 500
   \<and> body_of (fst (handle_one_request
      \<lparr>command = ''POST'', path = ''/wake'', headers = [], body = []\<rparr>
      (Inl (CalledProcessError ''exit status 1''))))
      = ''Error sending signal: exit status 1'' @ nl"
  using wake_failure [of "\<lparr>command = ''POST'', path = ''/wake'', headers = [], body = []\<rparr>"
      "''exit status 1''"]
  by simp

text \<open>
  Claim C3, as amended. A POST request whose path is not exactly \<^verbatim>\<open>/wake\<close> is answered
  with status 404 and the body \<^verbatim>\<open>Not found. Use POST /wake\<close> followed by a newline,
  whatever the signal delivery would do. (The claim promises the same for every method
  other than POST; the handler has no method for them, see the counterexample.)
\<close>

theorem not_found_post:
  assumes "command r = ''POST''" and "path r \<noteq> ''/wake''"
  shows "status_of (fst (handle_one_request r run)) = Some 404
         \<and> headers_of (fst (handle_one_request r run)) = [(''Content-Type'', ''text/plain'')]
         \<and> body_of (fst (handle_one_request r run)) = ''Not found. Use POST /wake'' @ nl
         \<and> snd (handle_one_request r run) = None"
  using assms by (simp add: handle_one_request_def do_POST_def)

theorem not_found_post_witness:
  "status_of (fst (handle_one_request
      \<lparr>command = ''POST'', path = ''/'', headers = [], body = []\<rparr> (Inr ()))) = Some 404
   \<and> body_of (fst (handle_one_request
      \<lparr>command = ''POST'', path = ''/'', headers = [], body = []\<rparr> (Inr ())))
      = ''Not found. Use POST /wake'' @ nl"
  using not_found_post [of "\<lparr>command = ''POST'', path = ''/'', headers = [], body = []\<rparr>" "Inr ()"]
  by simp

text \<open>
  The claim C3 as stated fails for a method other than POST: \<^verbatim>\<open>GET /wake\<close> has a method
  that is not POST, and the base class, finding no \<^verbatim>\<open>do_GET\<close>, answers 501 and not 404.
\<close>

theorem not_found_counterexample:
  "command \<lparr>command = ''GET'', path = ''/wake'', headers = [], body = []\<rparr> \<noteq> ''POST''
   \<and> status_of (fst (handle_one_request
        \<lparr>command = ''GET'', path = ''/wake'', headers = [], body = []\<rparr> (Inr ()))) = Some 501
   \<and> status_of (fst (handle_one_request
        \<lparr>command = ''GET'', path = ''/wake'', headers = [], body = []\<rparr> (Inr ()))) \<noteq> Some 404"
  by (simp add: handle_one_request_def)

text \<open>
  Claim C9. The response is computed without the request body and without parsing a query
  string: a request with another body gets the same calls, and a POST whose target is
  \<^verbatim>\<open>/wake\<close> with a query string is not the wake route (it gets the 404 answer, and no
  signal is sent).
\<close>

theorem body_and_query_ignored:
  "handle_one_request (r\<lparr>body := b\<rparr>) run = handle_one_request r run
   \<and> handle_one_request (r\<lparr>command := ''POST'', path := ''/wake?'' @ q\<rparr>) run =
       ([Send_response 404, Send_header ''Content-Type'' ''text/plain'', End_headers,
         Wfile_write (''Not found. Use POST /wake'' @ nl)], None)"
  by (simp add: handle_one_request_def do_POST_def)

text \<open>
  Claim C10. The calls made for a request are: for a POST with path exactly \<^verbatim>\<open>/wake\<close>, one
  \<^verbatim>\<open>subprocess.run\<close> of \<^verbatim>\<open>pkill -USR1 touch-timeout\<close> first, then calls that are not
  \<^verbatim>\<open>subprocess.run\<close> (the response); for any other request, only calls that are not
  \<^verbatim>\<open>subprocess.run\<close>.
\<close>

theorem signal_once_first:
  "fst (handle_one_request r run) =
     (if command r = ''POST'' \<and> path r = ''/wake''
      then [Subprocess_run [''pkill'', ''-USR1'', ''touch-timeout''] True True] else [])
     @ filter (\<lambda>c. \<not> is_run c) (fst (handle_one_request r run))"
  by (simp add: handle_one_request_def do_POST_def pkill_def split: sum.split exn.split)

section \<open>The server\<close>

subsection \<open>Facts about the serving loop\<close>

lemma serve_step:
  "ev \<noteq> Interrupt \<Longrightarrow> handled ev = (calls, raised) \<Longrightarrow>
     serve_forever (ev # evs) p =
       (let p' = p\<lparr>exchanges := exchanges p @ [calls],
                   stderr := stderr p @ concat (map logged calls)\<rparr>
        in (case raised of
              None \<Rightarrow> serve_forever evs p'
            | Some e \<Rightarrow>
                if is_Exception e
                then serve_forever evs (p'\<lparr>stderr := stderr p' @ [Handle_error e]\<rparr>)
                else (p', Some e)))"
  by (cases ev) simp_all

lemma calls_for_handled: "calls_for ev = fst (handled ev)"
  by (cases ev) simp_all

lemma cut_at_raised: "snd (cut_at n msg cs) = None \<or> snd (cut_at n msg cs) = Some (OSError msg)"
proof (induction cs arbitrary: n)
  case Nil
  show ?case by simp
next
  case (Cons c cs)
  have s: "snd (case cut_at k msg cs of (cs', x) \<Rightarrow> (c # cs', x)) = snd (cut_at k msg cs)" for k
    by (simp split: prod.split)
  show ?case
  proof (cases "writes c")
    case False
    then show ?thesis using Cons.IH [of n] by (simp add: s)
  next
    case True
    show ?thesis
    proof (cases n)
      case 0
      then show ?thesis using True by simp
    next
      case (Suc m)
      then show ?thesis using True Cons.IH [of m] by (simp add: s)
    qed
  qed
qed

lemma handle_one_request_raised:
  "snd (handle_one_request r run) = None \<or> (\<exists>e. snd (handle_one_request r run) = Some e \<and> run = Inl e)"
  by (simp add: handle_one_request_def do_POST_def split: sum.split exn.split)

lemma handle_lost_raised:
  "snd (handle_lost r run n msg) = None
   \<or> snd (handle_lost r run n msg) = Some (OSError msg)
   \<or> (\<exists>e. snd (handle_lost r run n msg) = Some e \<and> run = Inl e)"
proof -
  obtain calls raised where h: "handle_one_request r run = (calls, raised)"
    by (cases "handle_one_request r run")
  show ?thesis
  proof (cases raised)
    case None
    then show ?thesis using h cut_at_raised [of n msg calls] by (auto simp: handle_lost_def)
  next
    case (Some e)
    then show ?thesis using h handle_one_request_raised [of r run] by (simp add: handle_lost_def)
  qed
qed

lemma raised_cases:
  assumes "handled ev = (calls, raised)"
  shows "raised = None \<or> (\<exists>e. raised = Some e \<and> is_Exception e)
         \<or> (raised = Some KeyboardInterrupt \<and> interrupts ev)"
proof (cases raised)
  case None
  then show ?thesis by simp
next
  case (Some e)
  show ?thesis
  proof (cases "is_Exception e")
    case True
    then show ?thesis using Some by simp
  next
    case False
    then have k: "e = KeyboardInterrupt" by (cases e) simp_all
    have "interrupts ev"
    proof (cases ev)
      case Interrupt
      then show ?thesis by simp
    next
      case (Request r run)
      then show ?thesis using assms Some k handle_one_request_raised [of r run] by auto
    next
      case (Request_lost r run n msg)
      then show ?thesis using assms Some k handle_lost_raised [of r run n msg] by auto
    qed
    then show ?thesis using Some k by simp
  qed
qed

lemma serve_no_interrupt:
  "\<forall>ev\<in>set evs. \<not> interrupts ev \<Longrightarrow>
     snd (serve_forever evs p) = None
     \<and> exit_status (fst (serve_forever evs p)) = exit_status p
     \<and> server (fst (serve_forever evs p)) = server p
     \<and> exchanges (fst (serve_forever evs p)) = exchanges p @ map calls_for evs"
proof (induction evs arbitrary: p)
  case Nil
  then show ?case by simp
next
  case (Cons ev evs)
  have ni: "ev \<noteq> Interrupt" using Cons.prems by auto
  obtain calls raised where h: "handled ev = (calls, raised)"
    by (cases "handled ev")
  have c: "calls_for ev = calls" using h by (simp add: calls_for_handled)
  have "\<not> interrupts ev" using Cons.prems by simp
  with raised_cases [OF h]
  have ex: "raised = None \<or> (\<exists>e. raised = Some e \<and> is_Exception e)" by blast
  have rest: "\<forall>ev\<in>set evs. \<not> interrupts ev" using Cons.prems by simp
  from ex show ?case
  proof
    assume "raised = None"
    then show ?thesis using c Cons.IH [OF rest] by (simp add: serve_step [OF ni h])
  next
    assume "\<exists>e. raised = Some e \<and> is_Exception e"
    then obtain e where "raised = Some e" and "is_Exception e" by blast
    then show ?thesis using c Cons.IH [OF rest] by (simp add: serve_step [OF ni h])
  qed
qed

lemma serve_interrupted:
  "snd (serve_forever (pre @ Interrupt # post) p) = Some KeyboardInterrupt
   \<and> server (fst (serve_forever (pre @ Interrupt # post) p)) = server p"
proof (induction pre arbitrary: p)
  case Nil
  show ?case by simp
next
  case (Cons ev pre)
  show ?case
  proof (cases "ev = Interrupt")
    case True
    then show ?thesis by simp
  next
    case False
    obtain calls raised where h: "handled ev = (calls, raised)"
      by (cases "handled ev")
    show ?thesis
    proof (cases raised)
      case None
      then show ?thesis using Cons.IH by (simp add: serve_step [OF False h])
    next
      case (Some e)
      then show ?thesis using Cons.IH by (cases e) (simp_all add: serve_step [OF False h])
    qed
  qed
qed

lemma serve_append:
  "snd (serve_forever pre p) = None \<Longrightarrow>
     serve_forever (pre @ evs) p = serve_forever evs (fst (serve_forever pre p))"
proof (induction pre arbitrary: p)
  case Nil
  show ?case by simp
next
  case (Cons ev pre)
  show ?case
  proof (cases "ev = Interrupt")
    case True
    with Cons.prems show ?thesis by simp
  next
    case False
    obtain calls raised where h: "handled ev = (calls, raised)"
      by (cases "handled ev")
    show ?thesis
    proof (cases raised)
      case None
      then show ?thesis using Cons.IH Cons.prems by (simp add: serve_step [OF False h])
    next
      case (Some e)
      show ?thesis
      proof (cases "is_Exception e")
        case True
        then show ?thesis using Some Cons.IH Cons.prems by (simp add: serve_step [OF False h])
      next
        case e: False
        then show ?thesis using Some Cons.prems by (simp add: serve_step [OF False h])
      qed
    qed
  qed
qed

lemma serve_one_exchange:
  "exchanges (fst (serve_forever [Request r run] p)) = exchanges p @ [fst (handle_one_request r run)]"
proof -
  obtain calls raised where h: "handle_one_request r run = (calls, raised)"
    by (cases "handle_one_request r run")
  show ?thesis
  proof (cases raised)
    case None
    then show ?thesis using h by simp
  next
    case (Some e)
    then show ?thesis using h by (cases "is_Exception e") simp_all
  qed
qed

lemma exchanges_main_except: "exchanges (main_except e p) = exchanges p"
  by (cases e) simp_all

lemma exchanges_main:
  "exchanges (main None evs) =
     exchanges (fst (serve_forever evs (not_started\<lparr>server := True, stderr := [Print startup_line]\<rparr>)))"
proof -
  let ?p0 = "not_started\<lparr>server := True, stderr := [Print startup_line]\<rparr>"
  obtain p x where s: "serve_forever evs ?p0 = (p, x)"
    by (cases "serve_forever evs ?p0")
  show ?thesis using s by (cases x) (simp_all add: main_def exchanges_main_except)
qed

lemma exchanges_after:
  assumes "\<forall>ev\<in>set pre. \<not> interrupts ev"
  shows "exchanges (main None (pre @ [Request r run])) =
           map calls_for pre @ [fst (handle_one_request r run)]"
proof -
  let ?p0 = "not_started\<lparr>server := True, stderr := [Print startup_line]\<rparr>"
  from serve_no_interrupt [OF assms, of ?p0]
  have n: "snd (serve_forever pre ?p0) = None"
    and x: "exchanges (fst (serve_forever pre ?p0)) = map calls_for pre"
    by (simp_all add: not_started_def)
  show ?thesis
    by (simp only: exchanges_main serve_append [OF n] serve_one_exchange x)
qed

lemma logged_any: "logged c = []"
  by (cases c) (simp_all add: log_request_def log_error_def log_message_def)

lemma logged_calls_for: "concat (map logged (calls_for ev)) = []"
  by (simp add: logged_any)

lemma serve_stderr:
  "\<forall>ev\<in>set evs. \<not> escapes ev \<Longrightarrow> \<forall>d\<in>set (stderr p). lifecycle d \<Longrightarrow>
     (\<forall>d\<in>set (stderr (fst (serve_forever evs p))). lifecycle d)
     \<and> (snd (serve_forever evs p) = None \<or> snd (serve_forever evs p) = Some KeyboardInterrupt)"
proof (induction evs arbitrary: p)
  case Nil
  then show ?case by simp
next
  case (Cons ev evs)
  have rest: "\<forall>ev\<in>set evs. \<not> escapes ev" using Cons.prems(1) by simp
  show ?case
  proof (cases "ev = Interrupt")
    case True
    with Cons.prems show ?thesis by simp
  next
    case False
    obtain calls raised where h: "handled ev = (calls, raised)"
      by (cases "handled ev")
    have q: "concat (map logged calls) = []" by (simp add: logged_any)
    have ne: "\<not> escapes ev" using Cons.prems(1) by simp
    have ex: "raised = None \<or> raised = Some KeyboardInterrupt"
    proof (cases raised)
      case None
      then show ?thesis by simp
    next
      case (Some e)
      then have "\<not> is_Exception e" using ne h by (simp add: escapes_def)
      then show ?thesis using Some by (cases e) simp_all
    qed
    let ?p' = "p\<lparr>exchanges := exchanges p @ [calls],
                 stderr := stderr p @ concat (map logged calls)\<rparr>"
    have "stderr ?p' = stderr p" by (simp add: q)
    then have l: "\<forall>d\<in>set (stderr ?p'). lifecycle d" using Cons.prems(2) by (simp only:)
    from ex show ?thesis
    proof
      assume "raised = None"
      then show ?thesis using Cons.IH [OF rest l] by (simp add: serve_step [OF False h])
    next
      assume "raised = Some KeyboardInterrupt"
      then show ?thesis using l by (simp add: serve_step [OF False h])
    qed
  qed
qed

subsection \<open>Failures stay inside their request\<close>

text \<open>
  Claim C4. No failure of the signal delivery ends the server. \<^verbatim>\<open>do_POST\<close> itself turns a
  \<^verbatim>\<open>CalledProcessError\<close> into a response and raises nothing; any other \<^verbatim>\<open>Exception\<close> of the
  delivery leaves \<^verbatim>\<open>do_POST\<close> but is caught by the server for that request (and so is the
  exception of a write to a client that has gone). So, as long as
  no interrupt arrives, after any sequence of requests, whatever their deliveries did, the
  process has not exited, the listener is running, and every request of the sequence has
  been handled with exactly the calls it gets on its own.
\<close>

theorem server_survives:
  assumes "\<forall>ev\<in>set evs. \<not> interrupts ev"
  shows "snd (do_POST r (Inl (CalledProcessError e))) = None
         \<and> exit_status (main None evs) = None
         \<and> listener_running (main None evs)
         \<and> exchanges (main None evs) = map calls_for evs"
proof -
  let ?p0 = "not_started\<lparr>server := True, stderr := [Print startup_line]\<rparr>"
  obtain p x where s: "serve_forever evs ?p0 = (p, x)"
    by (cases "serve_forever evs ?p0")
  from serve_no_interrupt [OF assms, of ?p0] s
  have "x = None" and "exit_status p = None" and "server p" and "exchanges p = map calls_for evs"
    by (simp_all add: not_started_def)
  moreover have "main None evs = p" using s \<open>x = None\<close> by (simp add: main_def)
  ultimately show ?thesis
    by (simp add: listener_running_def do_POST_def)
qed

theorem server_survives_witness:
  "exit_status (main None
     [Request \<lparr>command = ''POST'', path = ''/wake'', headers = [], body = []\<rparr>
        (Inl (CalledProcessError ''exit status 1'')),
      Request \<lparr>command = ''POST'', path = ''/wake'', headers = [], body = []\<rparr>
        (Inl (OSError ''[Errno 12] Cannot allocate memory'')),
      Request \<lparr>command = ''POST'', path = ''/wake'', headers = [], body = []\<rparr> (Inr ())]) = None
   \<and> map status_of (exchanges (main None
     [Request \<lparr>command = ''POST'', path = ''/wake'', headers = [], body = []\<rparr>
        (Inl (CalledProcessError ''exit status 1'')),
      Request \<lparr>command = ''POST'', path = ''/wake'', headers = [], body = []\<rparr>
        (Inl (OSError ''[Errno 12] Cannot allocate memory'')),
      Request \<lparr>command = ''POST'', path = ''/wake'', headers = [], body = []\<rparr> (Inr ())]))
     = [Some 500, None, Some 200]"
  using server_survives [of
     "[Request \<lparr>command = ''POST'', path = ''/wake'', headers = [], body = []\<rparr>
        (Inl (CalledProcessError ''exit status 1'')),
      Request \<lparr>command = ''POST'', path = ''/wake'', headers = [], body = []\<rparr>
        (Inl (OSError ''[Errno 12] Cannot allocate memory'')),
      Request \<lparr>command = ''POST'', path = ''/wake'', headers = [], body = []\<rparr> (Inr ())]"]
  by (simp add: handle_one_request_def do_POST_def)

text \<open>
  Claim C8. The calls made for a request depend only on its method, its path and what its
  own signal delivery does: whatever requests were handled before it (and whatever their
  deliveries did), the server handles it with the calls of \<open>handle_one_request\<close>, and two
  requests with the same method and path and the same delivery outcome get the same
  calls after any two histories.
\<close>

theorem history_independent:
  assumes "\<forall>ev\<in>set pre. \<not> interrupts ev" and "\<forall>ev\<in>set pre'. \<not> interrupts ev"
    and "command r = command r'" and "path r = path r'"
  shows "exchanges (main None (pre @ [Request r run])) =
           exchanges (main None pre) @ [fst (handle_one_request r run)]
         \<and> last (exchanges (main None (pre' @ [Request r' run]))) =
             last (exchanges (main None (pre @ [Request r run])))"
proof -
  let ?p0 = "not_started\<lparr>server := True, stderr := [Print startup_line]\<rparr>"
  have "exchanges (main None pre) = map calls_for pre"
    using serve_no_interrupt [OF assms(1), of ?p0]
    by (simp add: exchanges_main not_started_def)
  moreover have "handle_one_request r' run = handle_one_request r run"
    using assms(3,4) by (simp add: handle_one_request_def do_POST_def)
  ultimately show ?thesis
    by (simp add: exchanges_after [OF assms(1)] exchanges_after [OF assms(2)])
qed

theorem history_independent_witness:
  "last (exchanges (main None
      ([] @ [Request \<lparr>command = ''POST'', path = ''/wake'', headers = [], body = ''x''\<rparr> (Inr ())])))
   = last (exchanges (main None
      ([Request \<lparr>command = ''POST'', path = ''/wake'', headers = [], body = []\<rparr>
          (Inl (CalledProcessError ''exit status 1''))]
       @ [Request \<lparr>command = ''POST'', path = ''/wake'', headers = [], body = []\<rparr> (Inr ())])))"
  using history_independent [of
      "[Request \<lparr>command = ''POST'', path = ''/wake'', headers = [], body = []\<rparr>
          (Inl (CalledProcessError ''exit status 1''))]"
      "[]"
      "\<lparr>command = ''POST'', path = ''/wake'', headers = [], body = []\<rparr>"
      "\<lparr>command = ''POST'', path = ''/wake'', headers = [], body = ''x''\<rparr>"
      "Inr ()"]
  by simp

subsection \<open>Startup and shutdown\<close>

text \<open>
  Claim C5. When the port cannot be bound (the constructor raises \<^verbatim>\<open>OSError\<close>), the process
  writes two lines to standard error, the error and the hint at another running instance,
  and exits with status 1; no server object exists, no listener runs and no request is
  handled.
\<close>

theorem bind_failure:
  "stderr (main (Some e) evs) =
     [Print (''Error starting server: '' @ e @ nl),
      Print (''Is another instance already running? Check: lsof -i :8765'' @ nl)]
   \<and> exit_status (main (Some e) evs) = Some 1
   \<and> \<not> listener_running (main (Some e) evs)
   \<and> \<not> server (main (Some e) evs)
   \<and> exchanges (main (Some e) evs) = []"
  by (simp add: main_def not_started_def hint_line_def listener_running_def)

text \<open>
  Claim C6. When the operator's interrupt arrives while the server serves, after any
  requests, the last thing written to standard error is the shutdown line, the process
  exits with status 0 and no listener runs any more.
\<close>

theorem interrupt_exit:
  "exit_status (main None (pre @ Interrupt # post)) = Some 0
   \<and> last (stderr (main None (pre @ Interrupt # post))) = Print (nl @ ''Shutting down...'' @ nl)
   \<and> \<not> listener_running (main None (pre @ Interrupt # post))"
proof -
  let ?p0 = "not_started\<lparr>server := True, stderr := [Print startup_line]\<rparr>"
  obtain p x where s: "serve_forever (pre @ Interrupt # post) ?p0 = (p, x)"
    by (cases "serve_forever (pre @ Interrupt # post) ?p0")
  from serve_interrupted [of pre post ?p0] s have "x = Some KeyboardInterrupt" by simp
  then have "main None (pre @ Interrupt # post) = main_except KeyboardInterrupt p"
    using s by (simp add: main_def)
  then show ?thesis by (simp add: listener_running_def shutdown_line_def)
qed

subsection \<open>Diagnostics\<close>

text \<open>
  Claim C7, as amended. Handling a request writes no access-log line: every line the base
  class would log goes through the overridden \<^verbatim>\<open>log_message\<close>. And as long as no
  \<^verbatim>\<open>Exception\<close> leaves a request handler (no signal delivery fails to start its child
  process, and no client has gone when its response is written), everything on standard
  error is a lifecycle line: startup, shutdown, fatal bind error.
\<close>

theorem only_lifecycle_diagnostics:
  assumes "\<forall>ev\<in>set evs. \<not> escapes ev"
  shows "concat (map logged (calls_for ev)) = []
         \<and> (\<forall>d\<in>set (stderr (main bind evs)). lifecycle d)"
proof -
  let ?p0 = "not_started\<lparr>server := True, stderr := [Print startup_line]\<rparr>"
  have "\<forall>d\<in>set (stderr (main bind evs)). lifecycle d"
  proof (cases bind)
    case (Some e)
    then show ?thesis by (simp add: main_def not_started_def)
  next
    case None
    obtain p x where s: "serve_forever evs ?p0 = (p, x)"
      by (cases "serve_forever evs ?p0")
    have l0: "\<forall>d\<in>set (stderr ?p0). lifecycle d" by simp
    from serve_stderr [OF assms l0] s
    have lp: "\<forall>d\<in>set (stderr p). lifecycle d" and x: "x = None \<or> x = Some KeyboardInterrupt"
      by simp_all
    from x show ?thesis
    proof
      assume "x = None"
      then show ?thesis using None s lp by (simp add: main_def)
    next
      assume "x = Some KeyboardInterrupt"
      then show ?thesis using None s lp by (simp add: main_def)
    qed
  qed
  then show ?thesis by (simp add: logged_calls_for)
qed

theorem only_lifecycle_diagnostics_witness:
  "list_all lifecycle (stderr (main None
     [Request \<lparr>command = ''POST'', path = ''/wake'', headers = [], body = []\<rparr>
        (Inl (CalledProcessError ''exit status 1'')),
      Request \<lparr>command = ''GET'', path = ''/'', headers = [], body = []\<rparr> (Inr ()),
      Request_lost \<lparr>command = ''POST'', path = ''/wake'', headers = [], body = []\<rparr> (Inr ())
        (Suc (Suc 0)) ''[Errno 32] Broken pipe'',
      Interrupt]))"
  using only_lifecycle_diagnostics [of
     "[Request \<lparr>command = ''POST'', path = ''/wake'', headers = [], body = []\<rparr>
        (Inl (CalledProcessError ''exit status 1'')),
      Request \<lparr>command = ''GET'', path = ''/'', headers = [], body = []\<rparr> (Inr ()),
      Request_lost \<lparr>command = ''POST'', path = ''/wake'', headers = [], body = []\<rparr> (Inr ())
        (Suc (Suc 0)) ''[Errno 32] Broken pipe'',
      Interrupt]" _ None]
  by (simp add: list_all_iff escapes_def handle_lost_def handle_one_request_def do_POST_def)

text \<open>
  The claim C7 as stated fails when the child process cannot be started: the
  \<^verbatim>\<open>OSError\<close> is not caught by \<^verbatim>\<open>do_POST\<close>, and the server reports it on standard error
  for that request, which is not a lifecycle line.
\<close>

theorem only_lifecycle_diagnostics_counterexample:
  "stderr (main None
      [Request \<lparr>command = ''POST'', path = ''/wake'', headers = [], body = []\<rparr>
         (Inl (OSError ''[Errno 12] Cannot allocate memory''))])
     = [Print startup_line, Handle_error (OSError ''[Errno 12] Cannot allocate memory'')]
   \<and> \<not> lifecycle (Handle_error (OSError ''[Errno 12] Cannot allocate memory''))"
  by (simp add: main_def not_started_def handle_one_request_def do_POST_def
      log_request_def log_error_def log_message_def)

text \<open>
  The same happens, with the signal delivered, when the client has gone before the headers
  are written: the write raises, the exception leaves \<^verbatim>\<open>do_POST\<close> and the server reports
  it.
\<close>

lemma lost_client_reported:
  "stderr (main None
      [Request_lost \<lparr>command = ''POST'', path = ''/wake'', headers = [], body = []\<rparr> (Inr ())
         0 ''[Errno 104] Connection reset by peer''])
     = [Print startup_line, Handle_error (OSError ''[Errno 104] Connection reset by peer'')]
   \<and> escapes (Request_lost \<lparr>command = ''POST'', path = ''/wake'', headers = [], body = []\<rparr>
         (Inr ()) 0 ''[Errno 104] Connection reset by peer'')"
  by (simp add: main_def not_started_def handle_lost_def handle_one_request_def do_POST_def
      escapes_def log_request_def log_error_def log_message_def)

end
